theory Spec2Isabelle
  imports Complex_Main
begin

section \<open>Notification events (events.py)\<close>

text \<open>
  The two string-valued enums of \<^verbatim>\<open>events.py\<close> and the event model. The
  \<^verbatim>\<open>.value\<close> of an event type is the string the router compares with a
  channel's filter.
\<close>

datatype EventType =
    SESSION_STARTED | PHASE_STARTED | PHASE_COMPLETED | PHASE_FAILED
  | CHECKPOINT_APPROVAL | FINDING | BUDGET_WARNING | SESSION_COMPLETED
  | SESSION_FAILED | HEARTBEAT

fun event_type_value :: "EventType \<Rightarrow> string" where
  "event_type_value SESSION_STARTED = ''session_started''"
| "event_type_value PHASE_STARTED = ''phase_started''"
| "event_type_value PHASE_COMPLETED = ''phase_completed''"
| "event_type_value PHASE_FAILED = ''phase_failed''"
| "event_type_value CHECKPOINT_APPROVAL = ''checkpoint_approval''"
| "event_type_value FINDING = ''finding''"
| "event_type_value BUDGET_WARNING = ''budget_warning''"
| "event_type_value SESSION_COMPLETED = ''session_completed''"
| "event_type_value SESSION_FAILED = ''session_failed''"
| "event_type_value HEARTBEAT = ''heartbeat''"

datatype EventSeverity = INFO | WARNING | ERROR | CRITICAL

record NotificationEvent =
  event_type :: EventType
  severity :: EventSeverity
  session_id :: string
  phase :: string
  title :: string
  summary :: string
  details :: "(string \<times> string) list"
  requires_response :: bool
  timestamp :: string

section \<open>Exceptions, awaited calls and their effects\<close>

text \<open>
  Every handler in the notification package is \<^verbatim>\<open>except Exception\<close> (or a
  subclass of it), so a raised error is an instance of Python's \<^verbatim>\<open>Exception\<close>
  carrying its message. An awaited call either returns a value or raises.
\<close>

datatype exn = Exception string

datatype 'a outcome = Returns 'a | Raises exn

text \<open>
  A channel as the router sees it (channel.py): its name, its capability flag and the
  four coroutines of the contract. The router never looks inside a channel, so each
  coroutine is given by what a call of it does: return or raise. \<open>cid\<close> is the
  identity of the Python object: two channels may agree on everything else.
\<close>

record NotificationChannel =
  cid :: nat
  name :: string
  supports_responses :: bool
  send :: "NotificationEvent \<Rightarrow> unit outcome"
  wait_for_response :: "NotificationEvent \<Rightarrow> bool outcome"
  connect :: "unit outcome"
  disconnect :: "unit outcome"

text \<open>
  What the notification code does to the outside world, in the order the calls are
  launched: the channel coroutines the router invokes, the cancellations it requests, the
  exceptions handed to \<^verbatim>\<open>logger.exception\<close>, and the messages the email
  channel hands to \<^verbatim>\<open>_smtp_send\<close> (a message is the rendering, as subject, plain
  text and HTML, of a list of events, and is represented by that list).
\<close>

datatype effect =
    SendCalled NotificationChannel NotificationEvent
  | WaitCalled NotificationChannel NotificationEvent
  | CancelCalled NotificationChannel
  | ConnectCalled NotificationChannel
  | DisconnectCalled NotificationChannel
  | LogException string exn
  | SmtpSendCalled "NotificationEvent list"

text \<open>
  An action is the result of running a piece of code: the value it returns or the
  exception that leaves it (\<open>Inl\<close>), and the effects it had until then.
\<close>

type_synonym 'a act = "(exn + 'a) \<times> effect list"

definition await :: "effect \<Rightarrow> 'a outcome \<Rightarrow> 'a act" where
  "await eff out = ((case out of Returns v \<Rightarrow> Inr v | Raises x \<Rightarrow> Inl x), [eff])"

text \<open>Sequencing: an exception leaving the first statement skips the rest.\<close>

definition then_do :: "unit act \<Rightarrow> 'a act \<Rightarrow> 'a act" where
  "then_do m k =
     (case fst m of
        Inl x \<Rightarrow> (Inl x, snd m)
      | Inr u \<Rightarrow> (fst k, snd m @ snd k))"

text \<open>\<^verbatim>\<open>try: m  except Exception: h\<close>\<close>

definition try_except :: "'a act \<Rightarrow> (exn \<Rightarrow> 'a act) \<Rightarrow> 'a act" where
  "try_except m h =
     (case fst m of
        Inl x \<Rightarrow> (fst (h x), snd m @ snd (h x))
      | Inr v \<Rightarrow> m)"

definition logger_exception :: "string \<Rightarrow> exn \<Rightarrow> unit act" where
  "logger_exception msg x = (Inr (), [LogException msg x])"

text \<open>
  \<^verbatim>\<open>for x in xs: f(x)\<close> with each body awaited in turn.
\<close>

fun for_each :: "('a \<Rightarrow> unit act) \<Rightarrow> 'a list \<Rightarrow> unit act" where
  "for_each f [] = (Inr (), [])"
| "for_each f (x # xs) = then_do (f x) (for_each f xs)"

text \<open>
  \<^verbatim>\<open>asyncio.gather(*tasks)\<close>: every coroutine is started and runs to its end
  whatever the others do; the first exception among them, if any, is what the awaiting
  caller gets. The effects are listed in launch order.
\<close>

fun first_raised :: "(exn + unit) list \<Rightarrow> exn option" where
  "first_raised [] = None"
| "first_raised (Inl x # rs) = Some x"
| "first_raised (Inr u # rs) = first_raised rs"

definition gather :: "unit act list \<Rightarrow> unit act" where
  "gather tasks =
     ((case first_raised (map fst tasks) of None \<Rightarrow> Inr () | Some x \<Rightarrow> Inl x),
      concat (map snd tasks))"

text \<open>
  \<^verbatim>\<open>asyncio.create_task(coro)\<close> whose task object is dropped or only waited on
  later: the coroutine runs in the background, and whatever it returns or raises stays
  inside the task.
\<close>

definition create_task :: "'a act \<Rightarrow> unit act" where
  "create_task m = (Inr (), snd m)"

section \<open>NotificationRouter (router.py)\<close>

record NotificationRouter =
  channels :: "NotificationChannel list"
  filters :: "string \<rightharpoonup> string list"

definition NotificationRouter_init :: NotificationRouter where
  "NotificationRouter_init = \<lparr>channels = [], filters = Map.empty\<rparr>"

text \<open>\<^verbatim>\<open>events or ["*"]\<close>: \<^verbatim>\<open>None\<close> and the empty list are both falsy.\<close>

fun events_or_wildcard :: "string list option \<Rightarrow> string list" where
  "events_or_wildcard None = [''*'']"
| "events_or_wildcard (Some []) = [''*'']"
| "events_or_wildcard (Some (x # xs)) = x # xs"

definition register :: "NotificationRouter \<Rightarrow> NotificationChannel \<Rightarrow> string list option \<Rightarrow> NotificationRouter" where
  "register r channel events =
     r\<lparr>channels := channels r @ [channel],
       filters := (filters r)(name channel \<mapsto> events_or_wildcard events)\<rparr>"

definition matches :: "NotificationRouter \<Rightarrow> NotificationChannel \<Rightarrow> NotificationEvent \<Rightarrow> bool" where
  "matches r channel event =
     (let subscribed = (case filters r (name channel) of None \<Rightarrow> [''*''] | Some s \<Rightarrow> s)
      in ''*'' \<in> set subscribed \<or> event_type_value (event_type event) \<in> set subscribed)"

definition safe_send :: "NotificationChannel \<Rightarrow> NotificationEvent \<Rightarrow> unit act" where
  "safe_send channel event =
     try_except (await (SendCalled channel event) (send channel event))
       (\<lambda>x. logger_exception (''Failed to send to channel '' @ name channel) x)"

definition dispatch :: "NotificationRouter \<Rightarrow> NotificationEvent \<Rightarrow> unit act" where
  "dispatch r event =
     (let tasks = map (\<lambda>ch. safe_send ch event)
                      (filter (\<lambda>ch. matches r ch event) (channels r))
      in if tasks \<noteq> [] then gather tasks else (Inr (), []))"

text \<open>
  The partition at the head of \<^verbatim>\<open>request_approval\<close>: the matching channels, in
  registration order, split by capability.
\<close>

definition bidirectional :: "NotificationRouter \<Rightarrow> NotificationEvent \<Rightarrow> NotificationChannel list" where
  "bidirectional r event =
     filter (\<lambda>ch. supports_responses ch) (filter (\<lambda>ch. matches r ch event) (channels r))"

definition notify_only :: "NotificationRouter \<Rightarrow> NotificationEvent \<Rightarrow> NotificationChannel list" where
  "notify_only r event =
     filter (\<lambda>ch. \<not> supports_responses ch) (filter (\<lambda>ch. matches r ch event) (channels r))"

text \<open>
  \<^verbatim>\<open>asyncio.wait(response_tasks, return_when=FIRST_COMPLETED)\<close> is library code: it
  hands back the set of tasks that are done when the waiter resumes and the set of those
  still pending. Which tasks are done, and in which order the \<^verbatim>\<open>for task in done\<close>
  loop meets them, is decided by the event loop, so it is a parameter of the model:
  \<open>done_order\<close> lists the positions (in \<^verbatim>\<open>response_tasks\<close>) of the done tasks in
  iteration order. Its contract: at least one task is done, none is listed twice, and
  every position is one of a task.
\<close>

definition wait_contract :: "nat \<Rightarrow> nat list \<Rightarrow> bool" where
  "wait_contract n done_order =
     (done_order \<noteq> [] \<and> distinct done_order \<and> list_all (\<lambda>i. i < n) done_order)"

definition pending_of :: "nat \<Rightarrow> nat list \<Rightarrow> nat list" where
  "pending_of n done_order = filter (\<lambda>i. i \<notin> set done_order) [0..<n]"

text \<open>\<^verbatim>\<open>task.result()\<close> of a done task: the coroutine's value, or its exception re-raised.\<close>

definition task_result :: "bool outcome \<Rightarrow> bool act" where
  "task_result out = ((case out of Returns b \<Rightarrow> Inr b | Raises x \<Rightarrow> Inl x), [])"

text \<open>
  \<^verbatim>\<open>for task in done: try: return task.result()  except Exception: logger.exception(...)\<close>
  followed by the fallback \<^verbatim>\<open>return True\<close>.
\<close>

fun result_loop :: "bool outcome list \<Rightarrow> bool act" where
  "result_loop [] = (Inr True, [])"
| "result_loop (t # ts) =
     try_except (task_result t)
       (\<lambda>x. then_do (logger_exception ''Error getting approval response'' x) (result_loop ts))"

definition task_cancel :: "NotificationChannel \<Rightarrow> unit act" where
  "task_cancel ch = (Inr (), [CancelCalled ch])"

definition request_approval :: "NotificationRouter \<Rightarrow> NotificationEvent \<Rightarrow> nat list \<Rightarrow> bool act" where
  "request_approval r event done_order =
     (let bi = bidirectional r event; no = notify_only r event in
      then_do (for_each (\<lambda>ch. create_task (safe_send ch event)) no)
        (if bi = [] then (Inr True, [])
         else
           then_do (for_each (\<lambda>ch. safe_send ch event) bi)
          (then_do (for_each (\<lambda>ch. create_task
                        (await (WaitCalled ch event) (wait_for_response ch event))) bi)
          (then_do (for_each (\<lambda>i. task_cancel (bi ! i)) (pending_of (length bi) done_order))
             (result_loop (map (\<lambda>i. wait_for_response (bi ! i) event) done_order))))))"



text \<open>A router built by a sequence of \<^verbatim>\<open>register\<close> calls on a fresh one.\<close>

definition registered :: "(NotificationChannel \<times> string list option) list \<Rightarrow> NotificationRouter" where
  "registered regs = foldl (\<lambda>r (ch, events). register r ch events) NotificationRouter_init regs"

section \<open>Bidirectional chat channels (channels/telegram.py, channels/discord.py)\<close>

text \<open>
  The constructors. \<open>tg_client\<close> and \<open>dc_client\<close> say whether an HTTP client is
  held (\<^verbatim>\<open>_client\<close> is \<^verbatim>\<open>None\<close> until \<^verbatim>\<open>connect\<close>). In Python the empty
  string is falsy, so \<^verbatim>\<open>not (bot_token and channel_id)\<close> holds exactly when one of
  the two is empty.
\<close>

record TelegramChannel =
  tg_name :: string
  tg_supports_responses :: bool
  token :: string
  chat_id :: string
  tg_client :: bool
  base_url :: string
  last_update_id :: int

definition TelegramChannel_init :: "string \<Rightarrow> string \<Rightarrow> TelegramChannel" where
  "TelegramChannel_init tok chat =
     \<lparr>tg_name = ''telegram'', tg_supports_responses = True, token = tok, chat_id = chat,
      tg_client = False, base_url = ''https://api.telegram.org/bot'' @ tok,
      last_update_id = 0\<rparr>"

record DiscordChannel =
  dc_name :: string
  dc_supports_responses :: bool
  webhook_url :: string
  bot_token :: string
  channel_id :: string
  dc_client :: bool

definition DiscordChannel_init :: "string \<Rightarrow> string \<Rightarrow> string \<Rightarrow> DiscordChannel" where
  "DiscordChannel_init url btoken chan =
     \<lparr>dc_name = ''discord'',
      dc_supports_responses = (if \<not> (btoken \<noteq> [] \<and> chan \<noteq> []) then False else True),
      webhook_url = url, bot_token = btoken, channel_id = chan, dc_client = False\<rparr>"

subsection \<open>Telegram: waiting for a callback\<close>

text \<open>
  An update of \<^verbatim>\<open>getUpdates\<close>: its id and, when it is a callback query, the query's
  id and data (the \<^verbatim>\<open>callback_data\<close> of the pressed button). A request answers with
  a status and a body, fails with \<^verbatim>\<open>httpx.HTTPError\<close>, or fails otherwise (a body
  that is not JSON, for one). The body of \<^verbatim>\<open>getUpdates\<close> is its \<^verbatim>\<open>ok\<close> flag and
  its \<^verbatim>\<open>result\<close> list.
\<close>

record tg_update =
  update_id :: int
  callback_id :: "string option"
  callback_data :: "string option"

datatype 'a http_reply = Response int 'a | HTTPError exn | OtherError exn

text \<open>
  The \<^verbatim>\<open>for update in data.get("result", [])\<close> loop: every update met moves
  \<^verbatim>\<open>_last_update_id\<close> past it; the first one whose data is the approve or the deny
  string of this event ends the wait. \<^verbatim>\<open>callback["id"]\<close> of a query without an id is a
  \<^verbatim>\<open>KeyError\<close>.
\<close>

fun scan_updates ::
    "TelegramChannel \<Rightarrow> string \<Rightarrow> string \<Rightarrow> tg_update list \<Rightarrow> TelegramChannel \<times> bool outcome option" where
  "scan_updates ch expected_prefix deny_prefix [] = (ch, None)"
| "scan_updates ch expected_prefix deny_prefix (u # us) =
     (let ch1 = ch\<lparr>last_update_id := update_id u + 1\<rparr>;
          cb_data = (case callback_data u of None \<Rightarrow> [] | Some d \<Rightarrow> d)
      in if cb_data = expected_prefix then
           (case callback_id u of
              None \<Rightarrow> (ch1, Some (Raises (Exception ''KeyError'')))
            | Some i \<Rightarrow> (ch1, Some (Returns True)))
         else if cb_data = deny_prefix then
           (case callback_id u of
              None \<Rightarrow> (ch1, Some (Raises (Exception ''KeyError'')))
            | Some i \<Rightarrow> (ch1, Some (Returns False)))
         else scan_updates ch1 expected_prefix deny_prefix us)"

text \<open>
  \<^verbatim>\<open>while loop.time() < deadline: ...\<close>. Nothing in the loop makes time pass but the
  platform's answers, so the environment supplies, for each turn, the clock read by the
  loop test and the answer to that turn's request. The result is \<open>None\<close> when the
  supplied turns run out before the loop has ended.
\<close>

fun telegram_poll ::
    "TelegramChannel \<Rightarrow> string \<Rightarrow> string \<Rightarrow> int \<Rightarrow> (int \<times> (bool \<times> tg_update list) http_reply) list
       \<Rightarrow> (TelegramChannel \<times> bool outcome) option" where
  "telegram_poll ch expected_prefix deny_prefix deadline [] = None"
| "telegram_poll ch expected_prefix deny_prefix deadline ((t, reply) # turns) =
     (if t < deadline then
        (case reply of
           HTTPError x \<Rightarrow> telegram_poll ch expected_prefix deny_prefix deadline turns
         | OtherError x \<Rightarrow> Some (ch, Raises x)
         | Response status body \<Rightarrow>
             if fst body then
               (case scan_updates ch expected_prefix deny_prefix (snd body) of
                  (ch1, Some res) \<Rightarrow> Some (ch1, res)
                | (ch1, None) \<Rightarrow> telegram_poll ch1 expected_prefix deny_prefix deadline turns)
             else telegram_poll ch expected_prefix deny_prefix deadline turns)
      else Some (ch, Returns True))"

definition TelegramChannel_wait_for_response ::
    "TelegramChannel \<Rightarrow> int \<Rightarrow> (int \<times> (bool \<times> tg_update list) http_reply) list
       \<Rightarrow> NotificationEvent \<Rightarrow> int \<Rightarrow> (TelegramChannel \<times> bool outcome) option" where
  "TelegramChannel_wait_for_response ch now turns event timeout =
     (let deadline = now + timeout;
          expected_prefix = ''approve:'' @ session_id event @ '':'' @ phase event;
          deny_prefix = ''deny:'' @ session_id event @ '':'' @ phase event
      in telegram_poll ch expected_prefix deny_prefix deadline turns)"

subsection \<open>Discord: waiting for a reaction\<close>

text \<open>
  What the Discord API answers. A message of the channel carries its id and, in its
  embed, the session and phase of the event it was posted for (\<^verbatim>\<open>_build_embed\<close>);
  a reaction list names users, each with an optional \<^verbatim>\<open>bot\<close> flag.
\<close>

record discord_message =
  msg_id :: string
  embed_session :: string
  embed_phase :: string

record discord_user =
  user_name :: string
  user_bot :: "bool option"

text \<open>
  One round of the polling loop: the answers to the two reaction requests (approve
  first, then deny) and the time the round's requests took, in seconds.
\<close>

record poll_round =
  approve_reply :: "discord_user list http_reply"
  deny_reply :: "discord_user list http_reply"
  latency :: nat

text \<open>
  The environment of one \<^verbatim>\<open>wait_for_response\<close> call: the clock when it starts, the
  answer to the request for the channel's last messages (most recent first; anything that
  makes \<^verbatim>\<open>messages[0]["id"]\<close> fail is a raise) and the seconds that request took,
  and, for each message id, the rounds of reaction polling.
\<close>

record discord_env =
  clock :: int
  messages_reply :: "discord_message list outcome"
  messages_latency :: nat
  rounds :: "string \<Rightarrow> nat \<Rightarrow> poll_round"

text \<open>\<^verbatim>\<open>any(not u.get("bot", False) for u in users)\<close>\<close>

definition human_reacted :: "discord_user list \<Rightarrow> bool" where
  "human_reacted users =
     list_ex (\<lambda>u. \<not> (case user_bot u of None \<Rightarrow> False | Some b \<Rightarrow> b)) users"

text \<open>
  The body of one round, after the sleep: \<open>Some (Returns b)\<close> is \<^verbatim>\<open>return b\<close>,
  \<open>Some (Raises x)\<close> an exception that is not caught, \<open>None\<close> going on to the next
  round (nobody reacted, or \<^verbatim>\<open>httpx.HTTPError\<close> was logged).
\<close>

definition check_reactions :: "poll_round \<Rightarrow> bool outcome option" where
  "check_reactions rd =
     (case approve_reply rd of
        HTTPError x \<Rightarrow> None
      | OtherError x \<Rightarrow> Some (Raises x)
      | Response status users \<Rightarrow>
          if status = 200 \<and> human_reacted users then Some (Returns True)
          else
            (case deny_reply rd of
               HTTPError x \<Rightarrow> None
             | OtherError x \<Rightarrow> Some (Raises x)
             | Response status' users' \<Rightarrow>
                 if status' = 200 \<and> human_reacted users' then Some (Returns False)
                 else None))"

text \<open>
  \<^verbatim>\<open>while loop.time() < deadline: await asyncio.sleep(5); ...\<close> with the clock in whole
  seconds. Every round takes the five seconds of its sleep and the time of its requests,
  so the loop ends.
\<close>

function discord_poll :: "(nat \<Rightarrow> poll_round) \<Rightarrow> int \<Rightarrow> int \<Rightarrow> nat \<Rightarrow> bool outcome" where
  "discord_poll env deadline t k =
     (if t < deadline then
        (case check_reactions (env k) of
           Some res \<Rightarrow> res
         | None \<Rightarrow> discord_poll env deadline (t + 5 + int (latency (env k))) (Suc k))
      else Returns True)"
  by pat_completeness auto
termination
  by (relation "measure (\<lambda>(env, deadline, t, k). nat (deadline - t))") auto

definition DiscordChannel_wait_for_response ::
    "DiscordChannel \<Rightarrow> discord_env \<Rightarrow> NotificationEvent \<Rightarrow> int \<Rightarrow> bool outcome" where
  "DiscordChannel_wait_for_response ch env event timeout =
     (if \<not> dc_supports_responses ch then Returns True
      else
        (let deadline = clock env + timeout in
         case messages_reply env of
           Raises x \<Rightarrow> Returns True
         | Returns messages \<Rightarrow>
             (case messages of
                [] \<Rightarrow> Returns True
              | m # rest \<Rightarrow>
                  if msg_id m = [] then Returns True
                  else discord_poll (rounds env (msg_id m)) deadline
                         (clock env + int (messages_latency env)) 0)))"

section \<open>Email channel (channels/email.py)\<close>








section \<open>HeartbeatMonitor (heartbeat.py)\<close>

text \<open>
  The monitor's fields; \<open>task\<close> is \<^verbatim>\<open>_task\<close>, the handle of the background task it
  created last. The event loop owns the tasks themselves: a task is running until it is
  cancelled (\<^verbatim>\<open>_loop\<close> ends in no other way).
\<close>

datatype task_status = TaskRunning | TaskDone

record HeartbeatMonitor =
  hb_router :: NotificationRouter
  hb_session_id :: string
  interval :: real
  task :: "nat option"
  current_phase :: string
  started_at :: string
  datasets_acquired :: int
  cost_so_far :: real

definition HeartbeatMonitor_init :: "NotificationRouter \<Rightarrow> string \<Rightarrow> real \<Rightarrow> string \<Rightarrow> HeartbeatMonitor" where
  "HeartbeatMonitor_init r sid secs now_iso =
     \<lparr>hb_router = r, hb_session_id = sid, interval = secs, task = None, current_phase = [],
      started_at = now_iso, datasets_acquired = 0, cost_so_far = 0\<rparr>"

text \<open>
  The monitor together with the event loop's tasks, the events it has passed to
  \<^verbatim>\<open>router.dispatch\<close>, and what those dispatches did.
\<close>

record hb_world =
  monitor :: HeartbeatMonitor
  loop_tasks :: "task_status list"
  dispatched :: "NotificationEvent list"
  hb_effects :: "effect list"

definition hb_fresh :: "HeartbeatMonitor \<Rightarrow> hb_world" where
  "hb_fresh m = \<lparr>monitor = m, loop_tasks = [], dispatched = [], hb_effects = []\<rparr>"

definition update_status :: "hb_world \<Rightarrow> string \<Rightarrow> int \<Rightarrow> real \<Rightarrow> hb_world" where
  "update_status w ph datasets cost =
     w\<lparr>monitor := (monitor w)
          \<lparr>current_phase := (if ph \<noteq> [] then ph else current_phase (monitor w)),
           datasets_acquired := datasets, cost_so_far := cost\<rparr>\<rparr>"

definition start :: "hb_world \<Rightarrow> hb_world" where
  "start w =
     (if interval (monitor w) \<le> 0 then w
      else w\<lparr>loop_tasks := loop_tasks w @ [TaskRunning],
             monitor := (monitor w)\<lparr>task := Some (length (loop_tasks w))\<rparr>\<rparr>)"

text \<open>
  \<^verbatim>\<open>stop\<close>: a held task that is not done is cancelled and awaited (the
  \<^verbatim>\<open>CancelledError\<close> is swallowed on both sides) and the handle is dropped; with no
  task, or a done one, nothing is touched. A handle always names a task of the loop.
\<close>

definition stop :: "hb_world \<Rightarrow> hb_world" where
  "stop w =
     (case task (monitor w) of
        None \<Rightarrow> w
      | Some h \<Rightarrow>
          if h < length (loop_tasks w) \<and> loop_tasks w ! h \<noteq> TaskDone then
            w\<lparr>loop_tasks := (loop_tasks w)[h := TaskDone],
              monitor := (monitor w)\<lparr>task := None\<rparr>\<rparr>
          else w)"

text \<open>
  Rendering numbers as text (\<^verbatim>\<open>f"{elapsed_min}m"\<close>, \<^verbatim>\<open>f"${cost:.2f}"\<close>) is the
  language's, so it is a parameter. \<^verbatim>\<open>int(x)\<close> truncates towards zero.
\<close>

record number_format =
  show_int :: "int \<Rightarrow> string"
  show_money :: "real \<Rightarrow> string"
  show_float :: "real \<Rightarrow> string"

definition py_int :: "real \<Rightarrow> int" where
  "py_int x = (if x \<ge> 0 then \<lfloor>x\<rfloor> else \<lceil>x\<rceil>)"

fun join_parts :: "string list \<Rightarrow> string" where
  "join_parts [] = []"
| "join_parts [p] = p"
| "join_parts (p # q # ps) = p @ '' | '' @ join_parts (q # ps)"

definition heartbeat_event :: "number_format \<Rightarrow> HeartbeatMonitor \<Rightarrow> real \<Rightarrow> string \<Rightarrow> NotificationEvent" where
  "heartbeat_event fmt m elapsed now_iso =
     (let elapsed_min = py_int (elapsed / 60);
          summary_parts =
            [''Running for '' @ show_int fmt elapsed_min @ ''m'']
            @ (if current_phase m \<noteq> [] then [''phase: '' @ current_phase m] else [])
            @ (if cost_so_far m > 0 then [''cost: $'' @ show_money fmt (cost_so_far m)] else [])
            @ (if datasets_acquired m > 0
               then [''datasets: '' @ show_int fmt (datasets_acquired m)] else [])
      in \<lparr>event_type = HEARTBEAT, severity = INFO, session_id = hb_session_id m,
          phase = current_phase m, title = ''Heartbeat'', summary = join_parts summary_parts,
          details = [(''elapsed_seconds'', show_int fmt (py_int elapsed)),
                     (''current_phase'', current_phase m),
                     (''cost_usd'', show_float fmt (cost_so_far m)),
                     (''datasets_acquired'', show_int fmt (datasets_acquired m))],
          requires_response = False, timestamp = now_iso\<rparr>)"

text \<open>
  \<^verbatim>\<open>_send_heartbeat\<close>: build the event and dispatch it, logging whatever
  \<^verbatim>\<open>dispatch\<close> raises.
\<close>

definition send_heartbeat :: "number_format \<Rightarrow> hb_world \<Rightarrow> real \<Rightarrow> string \<Rightarrow> hb_world" where
  "send_heartbeat fmt w elapsed now_iso =
     (let event = heartbeat_event fmt (monitor w) elapsed now_iso;
          m = try_except (dispatch (hb_router (monitor w)) event)
                (\<lambda>x. logger_exception ''Failed to send heartbeat'' x)
      in w\<lparr>dispatched := dispatched w @ [event], hb_effects := hb_effects w @ snd m\<rparr>)"

text \<open>
  One turn of \<^verbatim>\<open>_loop\<close> in task \<open>h\<close>: its \<^verbatim>\<open>asyncio.sleep(interval)\<close> is over and
  the heartbeat is sent. Only a task that exists and has not been cancelled can take it.
\<close>

definition wake :: "number_format \<Rightarrow> hb_world \<Rightarrow> nat \<Rightarrow> real \<Rightarrow> string \<Rightarrow> hb_world" where
  "wake fmt w h elapsed now_iso =
     (if h < length (loop_tasks w) \<and> loop_tasks w ! h = TaskRunning
      then send_heartbeat fmt w elapsed now_iso
      else w)"

text \<open>
  Everything that can happen to a monitor: the calls of its owner, and the event loop
  letting one of the tasks take a turn after any amount of time.
\<close>

datatype hb_op =
    Start
  | Stop
  | UpdateStatus string int real
  | Wake nat real string

fun hb_step :: "number_format \<Rightarrow> hb_world \<Rightarrow> hb_op \<Rightarrow> hb_world" where
  "hb_step fmt w Start = start w"
| "hb_step fmt w Stop = stop w"
| "hb_step fmt w (UpdateStatus ph datasets cost) = update_status w ph datasets cost"
| "hb_step fmt w (Wake h elapsed now_iso) = wake fmt w h elapsed now_iso"

definition hb_run :: "number_format \<Rightarrow> hb_world \<Rightarrow> hb_op list \<Rightarrow> hb_world" where
  "hb_run fmt w ops = foldl (hb_step fmt) w ops"

section \<open>Observing a run of the router\<close>

text \<open>
  The calls a router method made, read off its effects: who was sent what, whose
  \<^verbatim>\<open>wait_for_response\<close> was started, whose task was cancelled, who was connected
  and disconnected.
\<close>

fun send_calls :: "effect list \<Rightarrow> (NotificationChannel \<times> NotificationEvent) list" where
  "send_calls [] = []"
| "send_calls (SendCalled ch e # es) = (ch, e) # send_calls es"
| "send_calls (x # es) = send_calls es"





text \<open>
  The effects of the two rounds of sends in \<^verbatim>\<open>request_approval\<close>: the background
  notifications to the notify-only channels and the awaited prompts to the bidirectional
  ones.
\<close>

definition notify_effects :: "NotificationRouter \<Rightarrow> NotificationEvent \<Rightarrow> effect list" where
  "notify_effects r e = concat (map (\<lambda>ch. snd (safe_send ch e)) (notify_only r e))"

definition prompt_effects :: "NotificationRouter \<Rightarrow> NotificationEvent \<Rightarrow> effect list" where
  "prompt_effects r e = concat (map (\<lambda>ch. snd (safe_send ch e)) (bidirectional r e))"

text \<open>
  The value the \<^verbatim>\<open>for task in done\<close> loop produces from the outcomes of the done
  tasks, in iteration order: the first one that returned, else the fallback.
\<close>

fun first_response :: "bool outcome list \<Rightarrow> bool" where
  "first_response [] = True"
| "first_response (Returns b # ts) = b"
| "first_response (Raises x # ts) = first_response ts"


section \<open>Test fixtures (tests/test_notifications.py)\<close>

text \<open>
  \<^verbatim>\<open>MockChannel\<close> and \<^verbatim>\<open>FailingChannel\<close> of the test suite in one: a channel with
  a given name and capability whose \<^verbatim>\<open>send\<close> and \<^verbatim>\<open>wait_for_response\<close> have a
  fixed outcome; and \<^verbatim>\<open>_make_event\<close> with its defaults.
\<close>

definition MockChannel :: "nat \<Rightarrow> string \<Rightarrow> bool \<Rightarrow> unit outcome \<Rightarrow> bool outcome \<Rightarrow> NotificationChannel" where
  "MockChannel i nm sr sent resp =
     \<lparr>cid = i, name = nm, supports_responses = sr, send = (\<lambda>e. sent),
      wait_for_response = (\<lambda>e. resp), connect = Returns (), disconnect = Returns ()\<rparr>"

definition make_event :: "EventType \<Rightarrow> NotificationEvent" where
  "make_event t =
     \<lparr>event_type = t, severity = INFO, session_id = ''test-session'', phase = [],
      title = ''Test event'', summary = ''Something happened'', details = [],
      requires_response = False, timestamp = ''2026-01-01T00:00:00+00:00''\<rparr>"

definition approval_event :: NotificationEvent where
  "approval_event = (make_event CHECKPOINT_APPROVAL)\<lparr>requires_response := True\<rparr>"

text \<open>
  Routers of the test suite and of the specification's scenarios: one bidirectional
  channel that denies; two bidirectional channels answering differently; a bidirectional
  channel whose wait fails beside one that denies; filtered notify-only channels; and two
  channels registered under one name with different filters.
\<close>

definition deny_router :: NotificationRouter where
  "deny_router = registered
     [(MockChannel 1 ''bidir'' True (Returns ()) (Returns False), None),
      (MockChannel 2 ''notify_only'' False (Returns ()) (Returns True), None)]"






section \<open>Observing the email channel\<close>




section \<open>Observing the heartbeat monitor and the chat channels\<close>

text \<open>
  A monitor is idle when it holds no task, the event loop has none of its tasks, and
  nothing was dispatched.
\<close>

definition hb_idle :: "hb_world \<Rightarrow> bool" where
  "hb_idle w \<longleftrightarrow>
     task (monitor w) = None \<and> loop_tasks w = [] \<and> dispatched w = [] \<and> hb_effects w = []"

text \<open>A stand-in for the language's number rendering, for concrete runs.\<close>

definition placeholder_format :: number_format where
  "placeholder_format =
     \<lparr>show_int = (\<lambda>i. ''<int>''), show_money = (\<lambda>x. ''<money>''),
      show_float = (\<lambda>x. ''<float>'')\<rparr>"

text \<open>
  A Discord channel with both credentials; an approval event for the phase
  \<^verbatim>\<open>analysis\<close> of the session \<^verbatim>\<open>test-session\<close>; and a Discord channel whose
  most recent message is the prompt of an earlier session's \<^verbatim>\<open>plan\<close> phase, which a
  human has answered with the deny reaction (the bot's own two reactions are there too).
\<close>

definition test_discord_channel :: DiscordChannel where
  "test_discord_channel =
     DiscordChannel_init ''https://discord.com/api/webhooks/X/Y'' ''bot-token'' ''42''"

definition analysis_approval_event :: NotificationEvent where
  "analysis_approval_event = approval_event\<lparr>phase := ''analysis''\<rparr>"

definition stale_message_env :: discord_env where
  "stale_message_env =
     \<lparr>clock = 0,
      messages_reply = Returns
        [\<lparr>msg_id = ''1001'', embed_session = ''earlier-session'', embed_phase = ''plan''\<rparr>],
      messages_latency = 1,
      rounds = (\<lambda>mid k.
        \<lparr>approve_reply = Response 200 [\<lparr>user_name = ''apollobot'', user_bot = Some True\<rparr>],
         deny_reply = Response 200 [\<lparr>user_name = ''apollobot'', user_bot = Some True\<rparr>,
                                     \<lparr>user_name = ''alice'', user_bot = None\<rparr>],
         latency = 1\<rparr>)\<rparr>"

section \<open>Properties of the router\<close>

subsection \<open>Effects of the building blocks\<close>

lemma send_calls_append: "send_calls (xs @ ys) = send_calls xs @ send_calls ys"
  by (induction xs rule: send_calls.induct) simp_all





lemma safe_send_returns: "fst (safe_send ch e) = Inr ()"
  by (cases "send ch e") (simp_all add: safe_send_def try_except_def await_def logger_exception_def)

lemma safe_send_effects:
  "snd (safe_send ch e) =
     SendCalled ch e #
       (case send ch e of Returns u \<Rightarrow> []
        | Raises x \<Rightarrow> [LogException (''Failed to send to channel '' @ name ch) x])"
  by (cases "send ch e") (simp_all add: safe_send_def try_except_def await_def logger_exception_def)

lemma send_calls_safe_send: "send_calls (snd (safe_send ch e)) = [(ch, e)]"
  by (cases "send ch e") (simp_all add: safe_send_effects)

lemma for_each_returns:
  "(\<And>x. fst (f x) = Inr ()) \<Longrightarrow> fst (for_each f xs) = Inr ()"
  by (induction xs) (simp_all add: then_do_def)

lemma for_each_effects:
  "(\<And>x. fst (f x) = Inr ()) \<Longrightarrow> snd (for_each f xs) = concat (map (\<lambda>x. snd (f x)) xs)"
  by (induction xs) (simp_all add: then_do_def)

lemma first_raised_none:
  "(\<And>x. fst (f x) = Inr ()) \<Longrightarrow> first_raised (map (\<lambda>x. fst (f x)) xs) = None"
  by (induction xs) simp_all

lemma gather_safe_sends:
  "gather (map (\<lambda>ch. safe_send ch e) chs) =
     (Inr (), concat (map (\<lambda>ch. snd (safe_send ch e)) chs))"
proof -
  have "first_raised (map (\<lambda>ch. fst (safe_send ch e)) chs) = None"
    by (rule first_raised_none) (rule safe_send_returns)
  then show ?thesis by (simp add: gather_def comp_def)
qed

lemma send_calls_concat_safe:
  "send_calls (concat (map (\<lambda>ch. snd (safe_send ch e)) chs)) = map (\<lambda>ch. (ch, e)) chs"
  by (induction chs) (simp_all add: send_calls_append send_calls_safe_send)


lemma dispatch_send_calls:
  "send_calls (snd (dispatch r e)) = map (\<lambda>ch. (ch, e)) (filter (\<lambda>ch. matches r ch e) (channels r))"
  by (simp add: dispatch_def Let_def gather_safe_sends send_calls_concat_safe)

lemma result_loop_returns: "\<exists>b. fst (result_loop ts) = Inr b"
proof (induction ts)
  case Nil
  show ?case by auto
next
  case (Cons t ts)
  then obtain b where b: "fst (result_loop ts) = Inr b" by blast
  show ?case
    by (cases t) (simp_all add: try_except_def task_result_def then_do_def logger_exception_def b)
qed

lemma then_do_returns: "fst m = Inr () \<Longrightarrow> then_do m k = (fst k, snd m @ snd k)"
  by (simp add: then_do_def)

lemma result_loop_value: "fst (result_loop ts) = Inr (first_response ts)"
  by (induction ts rule: first_response.induct)
     (simp_all add: try_except_def task_result_def then_do_def logger_exception_def)




lemma create_task_returns: "fst (create_task m) = Inr ()"
  by (simp add: create_task_def)

lemma task_cancel_returns: "fst (task_cancel ch) = Inr ()"
  by (simp add: task_cancel_def)

lemma request_approval_none:
  assumes "bidirectional r e = []"
  shows "request_approval r e d = (Inr True, notify_effects r e)"
proof -
  have "fst (for_each (\<lambda>ch. create_task (safe_send ch e)) (notify_only r e)) = Inr ()"
    by (rule for_each_returns) (rule create_task_returns)
  moreover have "snd (for_each (\<lambda>ch. create_task (safe_send ch e)) (notify_only r e)) = notify_effects r e"
    by (simp add: for_each_effects create_task_returns notify_effects_def) (simp add: create_task_def)
  ultimately show ?thesis
    using assms by (simp add: request_approval_def Let_def then_do_returns)
qed

lemma request_approval_some:
  assumes "bidirectional r e \<noteq> []"
  shows "request_approval r e d =
    (fst (result_loop (map (\<lambda>i. wait_for_response (bidirectional r e ! i) e) d)),
     notify_effects r e @ prompt_effects r e
       @ map (\<lambda>ch. WaitCalled ch e) (bidirectional r e)
       @ map (\<lambda>i. CancelCalled (bidirectional r e ! i)) (pending_of (length (bidirectional r e)) d)
       @ snd (result_loop (map (\<lambda>i. wait_for_response (bidirectional r e ! i) e) d)))"
proof -
  let ?bi = "bidirectional r e"
  have a: "for_each (\<lambda>ch. create_task (safe_send ch e)) (notify_only r e) = (Inr (), notify_effects r e)"
  proof (rule prod_eqI)
    show "fst (for_each (\<lambda>ch. create_task (safe_send ch e)) (notify_only r e)) = fst (Inr (), notify_effects r e)"
      by (simp add: for_each_returns create_task_returns)
    show "snd (for_each (\<lambda>ch. create_task (safe_send ch e)) (notify_only r e)) = snd (Inr (), notify_effects r e)"
      by (simp add: for_each_effects create_task_returns notify_effects_def) (simp add: create_task_def)
  qed
  have b: "for_each (\<lambda>ch. safe_send ch e) ?bi = (Inr (), prompt_effects r e)"
  proof (rule prod_eqI)
    show "fst (for_each (\<lambda>ch. safe_send ch e) ?bi) = fst (Inr (), prompt_effects r e)"
      by (simp add: for_each_returns safe_send_returns)
    show "snd (for_each (\<lambda>ch. safe_send ch e) ?bi) = snd (Inr (), prompt_effects r e)"
      by (simp add: for_each_effects safe_send_returns prompt_effects_def)
  qed
  have c: "for_each (\<lambda>ch. create_task (await (WaitCalled ch e) (wait_for_response ch e))) ?bi
             = (Inr (), map (\<lambda>ch. WaitCalled ch e) ?bi)"
  proof (rule prod_eqI)
    show "fst (for_each (\<lambda>ch. create_task (await (WaitCalled ch e) (wait_for_response ch e))) ?bi)
            = fst (Inr (), map (\<lambda>ch. WaitCalled ch e) ?bi)"
      by (simp add: for_each_returns create_task_returns)
    show "snd (for_each (\<lambda>ch. create_task (await (WaitCalled ch e) (wait_for_response ch e))) ?bi)
            = snd (Inr (), map (\<lambda>ch. WaitCalled ch e) ?bi)"
      by (simp add: for_each_effects create_task_returns) (induction ?bi; simp add: create_task_def await_def)
  qed
  have d: "for_each (\<lambda>i. task_cancel (?bi ! i)) ps = (Inr (), map (\<lambda>i. CancelCalled (?bi ! i)) ps)" for ps
  proof (rule prod_eqI)
    show "fst (for_each (\<lambda>i. task_cancel (?bi ! i)) ps) = fst (Inr (), map (\<lambda>i. CancelCalled (?bi ! i)) ps)"
      by (simp add: for_each_returns task_cancel_returns)
    show "snd (for_each (\<lambda>i. task_cancel (?bi ! i)) ps) = snd (Inr (), map (\<lambda>i. CancelCalled (?bi ! i)) ps)"
      by (simp add: for_each_effects task_cancel_returns) (induction ps; simp add: task_cancel_def)
  qed
  show ?thesis
    using assms by (simp add: request_approval_def Let_def a b c d then_do_def)
qed







lemma request_approval_returns: "fst (request_approval r e d) = Inr (if bidirectional r e = [] then True
     else first_response (map (\<lambda>i. wait_for_response (bidirectional r e ! i) e) d))"
  by (cases "bidirectional r e = []")
     (simp_all add: request_approval_none request_approval_some result_loop_value)










subsection \<open>Registration and filters\<close>






lemma dispatch_receives:
  "(c, e) \<in> set (send_calls (snd (dispatch r e))) \<longleftrightarrow> c \<in> set (channels r) \<and> matches r c e"
  by (auto simp: dispatch_send_calls)


subsection \<open>The approval race\<close>

lemma wait_contract_one: "wait_contract (Suc 0) d \<Longrightarrow> d = [0]"
proof -
  assume c: "wait_contract (Suc 0) d"
  then obtain i rest where d: "d = i # rest"
    by (cases d) (simp_all add: wait_contract_def)
  with c have i: "i = 0" and rest: "\<forall>j\<in>set rest. j = 0" and dis: "i \<notin> set rest"
    by (auto simp: wait_contract_def list_all_iff)
  from rest dis i have "rest = []" by (cases rest) auto
  with d i show ?thesis by simp
qed



lemma deny_router_bidirectional:
  "bidirectional deny_router approval_event = [MockChannel 1 ''bidir'' True (Returns ()) (Returns False)]"
  by (simp add: bidirectional_def deny_router_def registered_def register_def
        NotificationRouter_init_def matches_def MockChannel_def)



subsection \<open>Failure isolation\<close>


subsection \<open>Approval without an interactive channel\<close>

text \<open>
  C6. When no matching channel supports responses, \<^verbatim>\<open>request_approval\<close> returns
  \<^verbatim>\<open>True\<close>, however many notify-only channels match (none included) and whatever
  the event loop would have reported.
\<close>

theorem request_approval_no_bidirectional:
  "bidirectional r e = [] \<Longrightarrow> fst (request_approval r e d) = Inr True"
  by (simp add: request_approval_none)

theorem request_approval_no_bidirectional_witness:
  "bidirectional (registered [(MockChannel 1 ''console'' False (Returns ()) (Returns True), None),
        (MockChannel 2 ''failing'' False (Raises (Exception ''boom'')) (Returns True), None)])
      (make_event CHECKPOINT_APPROVAL) = []
   \<and> fst (request_approval (registered [(MockChannel 1 ''console'' False (Returns ()) (Returns True), None),
        (MockChannel 2 ''failing'' False (Raises (Exception ''boom'')) (Returns True), None)])
      (make_event CHECKPOINT_APPROVAL) []) = Inr True
   \<and> bidirectional (registered []) (make_event CHECKPOINT_APPROVAL) = []
   \<and> fst (request_approval (registered []) (make_event CHECKPOINT_APPROVAL) []) = Inr True"
proof -
  have h1: "bidirectional (registered [(MockChannel 1 ''console'' False (Returns ()) (Returns True), None),
        (MockChannel 2 ''failing'' False (Raises (Exception ''boom'')) (Returns True), None)])
      (make_event CHECKPOINT_APPROVAL) = []"
    by (simp add: bidirectional_def registered_def register_def NotificationRouter_init_def
          MockChannel_def)
  have h2: "bidirectional (registered []) (make_event CHECKPOINT_APPROVAL) = []"
    by (simp add: bidirectional_def registered_def NotificationRouter_init_def)
  show ?thesis
    using h1 h2 request_approval_no_bidirectional [OF h1, of "[]"]
      request_approval_no_bidirectional [OF h2, of "[]"]
    by simp
qed

subsection \<open>Event filters\<close>




text \<open>
  C10. Registering with the empty list leaves the router in the very state that
  registering with no filter, or with \<^verbatim>\<open>["*"]\<close>, leaves it in; the channel then
  matches every event and every dispatch sends to it.
\<close>

theorem register_empty_filter_is_wildcard:
  "register r ch (Some []) = register r ch None
   \<and> register r ch (Some []) = register r ch (Some [''*''])
   \<and> matches (register r ch (Some [])) ch e
   \<and> (ch, e) \<in> set (send_calls (snd (dispatch (register r ch (Some [])) e)))"
  by (simp add: dispatch_receives) (simp add: register_def matches_def)

subsection \<open>The approval decision\<close>

text \<open>
  C7. With exactly one matching bidirectional channel whose \<^verbatim>\<open>wait_for_response\<close>
  returns \<open>b\<close>, \<^verbatim>\<open>request_approval\<close> returns \<open>b\<close>.
\<close>

theorem request_approval_single_channel:
  assumes "bidirectional r e = [ch]" and "wait_for_response ch e = Returns b"
    and "wait_contract (length (bidirectional r e)) d"
  shows "fst (request_approval r e d) = Inr b"
proof -
  from assms(1,3) have "d = [0]" by (simp add: wait_contract_one)
  with assms(1,2) show ?thesis by (simp add: request_approval_returns)
qed

theorem request_approval_single_channel_witness:
  "bidirectional deny_router approval_event = [MockChannel 1 ''bidir'' True (Returns ()) (Returns False)]
   \<and> wait_for_response (MockChannel 1 ''bidir'' True (Returns ()) (Returns False)) approval_event = Returns False
   \<and> wait_contract (length (bidirectional deny_router approval_event)) [0]
   \<and> fst (request_approval deny_router approval_event [0]) = Inr False"
proof -
  have h1: "bidirectional deny_router approval_event = [MockChannel 1 ''bidir'' True (Returns ()) (Returns False)]"
    by (rule deny_router_bidirectional)
  have h2: "wait_for_response (MockChannel 1 ''bidir'' True (Returns ()) (Returns False)) approval_event = Returns False"
    by (simp add: MockChannel_def)
  have h3: "wait_contract (length (bidirectional deny_router approval_event)) [0]"
    by (simp add: h1 wait_contract_def)
  show ?thesis
    using h1 h2 h3 request_approval_single_channel [OF h1 h2 h3] by simp
qed




section \<open>Properties of the email channel\<close>














section \<open>Properties of the heartbeat monitor\<close>

lemma hb_step_disabled:
  assumes "interval (monitor w) \<le> 0" and "hb_idle w"
  shows "interval (monitor (hb_step fmt w op)) \<le> 0 \<and> hb_idle (hb_step fmt w op)"
  using assms
  by (cases op) (simp_all add: hb_idle_def start_def stop_def update_status_def wake_def)

lemma hb_run_disabled:
  "interval (monitor w) \<le> 0 \<Longrightarrow> hb_idle w \<Longrightarrow> hb_idle (hb_run fmt w ops)"
  unfolding hb_run_def
proof (induction ops arbitrary: w)
  case Nil
  then show ?case by simp
next
  case (Cons op ops)
  from hb_step_disabled [OF Cons.prems, of fmt op]
  have "interval (monitor (hb_step fmt w op)) \<le> 0" and "hb_idle (hb_step fmt w op)"
    by simp_all
  from Cons.IH [OF this] show ?case by simp
qed

lemma hb_fresh_idle: "hb_idle (hb_fresh (HeartbeatMonitor_init r sid secs ts))"
  by (simp add: hb_idle_def hb_fresh_def HeartbeatMonitor_init_def)

text \<open>
  The model is not idle by construction: a monitor with a positive interval dispatches a
  heartbeat at each turn of its loop, until it is stopped.
\<close>

lemma heartbeat_enabled_dispatches:
  "dispatched (hb_run fmt (hb_fresh (HeartbeatMonitor_init r sid 300 ts)) [Start, Wake 0 300 ts'])
     = [heartbeat_event fmt (HeartbeatMonitor_init r sid 300 ts\<lparr>task := Some 0\<rparr>) 300 ts']"
  by (simp add: hb_run_def start_def wake_def send_heartbeat_def hb_fresh_def
        HeartbeatMonitor_init_def Let_def)

lemma heartbeat_stop_cancels:
  "dispatched (hb_run fmt (hb_fresh (HeartbeatMonitor_init r sid 300 ts)) [Start, Stop, Wake 0 300 ts'])
     = []"
  by (simp add: hb_run_def start_def stop_def wake_def send_heartbeat_def hb_fresh_def
        HeartbeatMonitor_init_def Let_def)

text \<open>
  C9. A monitor constructed with an interval of zero or less: \<^verbatim>\<open>start\<close> changes
  nothing, and after any sequence of \<^verbatim>\<open>start\<close>, \<^verbatim>\<open>stop\<close> and
  \<^verbatim>\<open>update_status\<close> calls, with the event loop free to run any task at any moment
  for any length of time, no event has been dispatched, no task exists and the monitor
  holds none. On a monitor that was never started, whatever its interval, \<^verbatim>\<open>stop\<close>
  returns having changed nothing.
\<close>

theorem heartbeat_disabled_never_dispatches:
  "(secs \<le> 0 \<longrightarrow>
      start (hb_fresh (HeartbeatMonitor_init r sid secs ts))
        = hb_fresh (HeartbeatMonitor_init r sid secs ts)
    \<and> dispatched (hb_run fmt (hb_fresh (HeartbeatMonitor_init r sid secs ts)) ops) = []
    \<and> hb_effects (hb_run fmt (hb_fresh (HeartbeatMonitor_init r sid secs ts)) ops) = []
    \<and> loop_tasks (hb_run fmt (hb_fresh (HeartbeatMonitor_init r sid secs ts)) ops) = []
    \<and> task (monitor (hb_run fmt (hb_fresh (HeartbeatMonitor_init r sid secs ts)) ops)) = None)
   \<and> stop (hb_fresh (HeartbeatMonitor_init r sid secs ts))
        = hb_fresh (HeartbeatMonitor_init r sid secs ts)"
proof -
  let ?w = "hb_fresh (HeartbeatMonitor_init r sid secs ts)"
  have i: "interval (monitor ?w) = secs"
    by (simp add: hb_fresh_def HeartbeatMonitor_init_def)
  have s: "stop ?w = ?w"
    by (simp add: stop_def hb_fresh_def HeartbeatMonitor_init_def)
  have "hb_idle (hb_run fmt ?w ops)" if "secs \<le> 0"
    using that i hb_run_disabled [OF _ hb_fresh_idle] by simp
  moreover have "start ?w = ?w" if "secs \<le> 0"
    using that i by (simp add: start_def)
  ultimately show ?thesis
    using s by (auto simp: hb_idle_def)
qed

theorem heartbeat_disabled_never_dispatches_witness:
  "start (hb_fresh (HeartbeatMonitor_init NotificationRouter_init ''test-session'' 0 ''t0''))
     = hb_fresh (HeartbeatMonitor_init NotificationRouter_init ''test-session'' 0 ''t0'')
   \<and> dispatched (hb_run placeholder_format
        (hb_fresh (HeartbeatMonitor_init NotificationRouter_init ''test-session'' 0 ''t0''))
        [Start, Wake 0 300 ''t1'', UpdateStatus ''analysis'' 3 (3/2), Wake 0 600 ''t2'', Stop,
         Wake 0 900 ''t3'']) = []
   \<and> stop (hb_fresh (HeartbeatMonitor_init NotificationRouter_init ''test-session'' 0 ''t0''))
     = hb_fresh (HeartbeatMonitor_init NotificationRouter_init ''test-session'' 0 ''t0'')"
proof -
  have h: "(0::real) \<le> 0" by simp
  show ?thesis
    using h heartbeat_disabled_never_dispatches [of 0 NotificationRouter_init "''test-session''" "''t0''"
        placeholder_format
        "[Start, Wake 0 300 ''t1'', UpdateStatus ''analysis'' 3 (3/2), Wake 0 600 ''t2'', Stop,
          Wake 0 900 ''t3'']"]
    by simp
qed

section \<open>Properties of the chat channels\<close>

lemma telegram_supports_responses: "tg_supports_responses (TelegramChannel_init tok chat)"
  by (simp add: TelegramChannel_init_def)

lemma discord_supports_responses:
  "dc_supports_responses (DiscordChannel_init url btoken chan) \<longleftrightarrow> btoken \<noteq> [] \<and> chan \<noteq> []"
  by (simp add: DiscordChannel_init_def)

text \<open>
  C2. The Discord constructor gives up response support when the bot token or the
  channel id is empty. The Telegram constructor does not: built with an empty token, an
  empty chat id or both, the channel still reports \<^verbatim>\<open>supports_responses = True\<close>.
\<close>

theorem telegram_without_credentials:
  "tg_supports_responses (TelegramChannel_init [] []) = True
   \<and> tg_supports_responses (TelegramChannel_init ''123:ABC'' []) = True
   \<and> tg_supports_responses (TelegramChannel_init [] ''456'') = True
   \<and> dc_supports_responses (DiscordChannel_init ''https://discord.com/api/webhooks/X/Y'' [] []) = False"
  by (simp add: TelegramChannel_init_def DiscordChannel_init_def)

text \<open>
  The Telegram wait binds its decision to the event: a denial comes only from a callback
  whose data is the deny string built from this event's session and phase, and a turn of
  the loop that finds the deadline passed ends the wait with auto-approve.
\<close>

lemma scan_updates_denial:
  "scan_updates ch expected_prefix deny_prefix us = (ch', Some (Returns False)) \<Longrightarrow>
     \<exists>u\<in>set us. (case callback_data u of None \<Rightarrow> [] | Some d \<Rightarrow> d) = deny_prefix"
  by (induction us arbitrary: ch)
     (auto simp: Let_def split: if_splits option.splits)

lemma telegram_poll_denial:
  "telegram_poll ch expected_prefix deny_prefix deadline turns = Some (ch', Returns False) \<Longrightarrow>
     \<exists>turn\<in>set turns. \<exists>status us. snd turn = Response status (True, us)
        \<and> (\<exists>u\<in>set us. (case callback_data u of None \<Rightarrow> [] | Some d \<Rightarrow> d) = deny_prefix)"
proof (induction turns arbitrary: ch)
  case Nil
  then show ?case by simp
next
  case (Cons turn turns)
  obtain t reply where turn: "turn = (t, reply)" by (cases turn)
  show ?case
  proof (cases reply)
    case (Response status body)
    obtain ok us where body: "body = (ok, us)" by (cases body)
    obtain ch1 res where scan: "scan_updates ch expected_prefix deny_prefix us = (ch1, res)"
      by (cases "scan_updates ch expected_prefix deny_prefix us")
    show ?thesis
    proof (cases "t < deadline \<and> ok")
      case True
      show ?thesis
      proof (cases res)
        case None
        with Cons.prems turn Response body scan True
        have "telegram_poll ch1 expected_prefix deny_prefix deadline turns = Some (ch', Returns False)"
          by simp
        from Cons.IH [OF this] show ?thesis by auto
      next
        case (Some out)
        with Cons.prems turn Response body scan True
        have "res = Some (Returns False)" and "ch1 = ch'" by simp_all
        with scan scan_updates_denial
        have "\<exists>u\<in>set us. (case callback_data u of None \<Rightarrow> [] | Some d \<Rightarrow> d) = deny_prefix"
          by blast
        with turn Response body True show ?thesis by auto
      qed
    next
      case False
      with Cons.prems turn Response body
      have "telegram_poll ch expected_prefix deny_prefix deadline turns = Some (ch', Returns False)"
        by (auto split: if_splits)
      from Cons.IH [OF this] show ?thesis by auto
    qed
  next
    case (HTTPError x)
    with Cons.prems turn
    have "telegram_poll ch expected_prefix deny_prefix deadline turns = Some (ch', Returns False)"
      by (auto split: if_splits)
    from Cons.IH [OF this] show ?thesis by auto
  next
    case (OtherError x)
    with Cons.prems turn show ?thesis by (auto split: if_splits)
  qed
qed

lemma telegram_denial_matches_event:
  assumes "TelegramChannel_wait_for_response ch now turns event timeout = Some (ch', Returns False)"
  shows "\<exists>turn\<in>set turns. \<exists>status us. snd turn = Response status (True, us)
        \<and> (\<exists>u\<in>set us. callback_data u
               = Some (''deny:'' @ session_id event @ '':'' @ phase event))"
proof -
  from assms telegram_poll_denial
  obtain turn status us u where t: "turn \<in> set turns" "snd turn = Response status (True, us)"
    and u: "u \<in> set us"
      "(case callback_data u of None \<Rightarrow> [] | Some d \<Rightarrow> d)
         = ''deny:'' @ session_id event @ '':'' @ phase event"
    unfolding TelegramChannel_wait_for_response_def Let_def by blast
  from u(2) have "callback_data u = Some (''deny:'' @ session_id event @ '':'' @ phase event)"
    by (cases "callback_data u") simp_all
  with t u(1) show ?thesis by blast
qed

lemma telegram_timeout:
  "deadline \<le> t \<Longrightarrow>
     telegram_poll ch expected_prefix deny_prefix deadline ((t, reply) # turns)
       = Some (ch, Returns True)"
  by simp

text \<open>
  The Discord wait never reads its event: the decision is taken from the reactions on
  whatever message is the channel's most recent one. When nobody reacts, the wait ends
  with auto-approve once the deadline has passed.
\<close>

lemma discord_wait_ignores_event:
  "DiscordChannel_wait_for_response ch env event timeout
     = DiscordChannel_wait_for_response ch env event' timeout"
  by (simp add: DiscordChannel_wait_for_response_def)

lemma discord_poll_timeout:
  "(\<And>j. check_reactions (env j) = None) \<Longrightarrow> discord_poll env deadline t k = Returns True"
  by (induction env deadline t k rule: discord_poll.induct) (simp add: discord_poll.simps)

text \<open>
  C8. Waiting for the approval of phase \<^verbatim>\<open>analysis\<close> of \<^verbatim>\<open>test-session\<close> on a
  channel whose most recent message is an earlier session's \<^verbatim>\<open>plan\<close> prompt with a
  human deny reaction: the wait returns \<^verbatim>\<open>False\<close>, a decision that no control bound
  to this event's session and phase produced.
\<close>

theorem discord_wait_for_response_stale_message:
  "DiscordChannel_wait_for_response test_discord_channel stale_message_env
       analysis_approval_event 3600 = Returns False
   \<and> messages_reply stale_message_env = Returns
        [\<lparr>msg_id = ''1001'', embed_session = ''earlier-session'', embed_phase = ''plan''\<rparr>]
   \<and> session_id analysis_approval_event = ''test-session''
   \<and> phase analysis_approval_event = ''analysis''"
  by (simp add: DiscordChannel_wait_for_response_def test_discord_channel_def
        DiscordChannel_init_def stale_message_env_def discord_poll.simps check_reactions_def
        human_reacted_def analysis_approval_event_def approval_event_def make_event_def)

end
